theory Spec2Isabelle
  imports
    Complex_Main
    "HOL-Library.Char_ord"
    "HOL-Library.List_Lexorder"
    "HOL-Library.Product_Lexorder"
begin

chapter \<open>The ETL pipeline of the multi-tenant BI platform (src/main.py)\<close>

text \<open>
  The pipeline works on pandas data frames and on an SQLite store. Both are libraries the
  repository calls, so the embedding models the part of their behaviour that the calls in
  \<^verbatim>\<open>main.py\<close> reach:
  \<^item> a column of a frame has a dtype (int64, float64 or object), as pandas gives it to
    the columns \<^verbatim>\<open>read_csv\<close>, \<^verbatim>\<open>read_excel\<close> and \<^verbatim>\<open>DataFrame(list_of_dicts)\<close> build;
  \<^item> a float64 value is a rational number or one of the special values inf, -inf and
    nan. The rounding error of binary64, its overflow and the sign of zero are left out;
    the special values are kept, since the behaviour at a zero denominator rests on them;
  \<^item> a stored SQL value is NULL, an integer, a real or a text. Values are stored as they
    are bound: the conversions of SQLite's column affinity, the reading of a text as a
    number, the 64-bit range of SUM and the case-insensitive matching of names are left
    out.
\<close>

section \<open>float64 values and the arithmetic of numpy\<close>

datatype fnum = Fin rat | PInf | NInf | NaN

text \<open>IEEE 754 division, as numpy's \<^verbatim>\<open>true_divide\<close> computes it without raising.\<close>

fun fdiv :: "fnum \<Rightarrow> fnum \<Rightarrow> fnum" where
  "fdiv NaN _ = NaN"
| "fdiv _ NaN = NaN"
| "fdiv (Fin a) (Fin b) =
     (if b = 0 then (if a = 0 then NaN else if 0 < a then PInf else NInf)
      else Fin (a / b))"
| "fdiv (Fin a) PInf = Fin 0"
| "fdiv (Fin a) NInf = Fin 0"
| "fdiv PInf (Fin b) = (if 0 \<le> b then PInf else NInf)"
| "fdiv NInf (Fin b) = (if 0 \<le> b then NInf else PInf)"
| "fdiv PInf PInf = NaN"
| "fdiv PInf NInf = NaN"
| "fdiv NInf PInf = NaN"
| "fdiv NInf NInf = NaN"

fun fsub :: "fnum \<Rightarrow> fnum \<Rightarrow> fnum" where
  "fsub NaN _ = NaN"
| "fsub _ NaN = NaN"
| "fsub (Fin a) (Fin b) = Fin (a - b)"
| "fsub (Fin a) PInf = NInf"
| "fsub (Fin a) NInf = PInf"
| "fsub PInf PInf = NaN"
| "fsub PInf _ = PInf"
| "fsub NInf NInf = NaN"
| "fsub NInf _ = NInf"

fun fadd :: "fnum \<Rightarrow> fnum \<Rightarrow> fnum" where
  "fadd NaN _ = NaN"
| "fadd _ NaN = NaN"
| "fadd (Fin a) (Fin b) = Fin (a + b)"
| "fadd (Fin a) PInf = PInf"
| "fadd (Fin a) NInf = NInf"
| "fadd PInf NInf = NaN"
| "fadd PInf _ = PInf"
| "fadd NInf PInf = NaN"
| "fadd NInf _ = NInf"

text \<open>
  \<^verbatim>\<open>Series.round(d)\<close> is numpy's \<^verbatim>\<open>around\<close>: scale by \<open>10^d\<close>, round to the nearest
  integer with ties to the even one (\<^verbatim>\<open>rint\<close>), scale back. inf and nan stay.
\<close>

definition rint :: "rat \<Rightarrow> int" where
  "rint y =
     (let f = \<lfloor>y\<rfloor>; d = y - of_int f
      in if d < 1 / 2 then f else if 1 / 2 < d then f + 1
         else if even f then f else f + 1)"

fun np_round :: "nat \<Rightarrow> fnum \<Rightarrow> fnum" where
  "np_round d (Fin x) = Fin (of_int (rint (x * 10 ^ d)) / 10 ^ d)"
| "np_round d PInf = PInf"
| "np_round d NInf = NInf"
| "np_round d NaN = NaN"

text \<open>\<^verbatim>\<open>fillna(0)\<close> on a float64 column replaces nan, and nothing else.\<close>

fun fillna0 :: "fnum \<Rightarrow> fnum" where
  "fillna0 NaN = Fin 0"
| "fillna0 x = x"

text \<open>int64 arithmetic of numpy wraps around silently.\<close>

definition wrap64 :: "int \<Rightarrow> int" where
  "wrap64 i = (i + 2 ^ 63) mod 2 ^ 64 - 2 ^ 63"

section \<open>Data frames\<close>

datatype error =
    KeyError string
  | TypeError
  | ValueError string
  | OperationalError
  | IntegrityError
  | DatabaseError
  | ExtractionFailed

text \<open>
  A column with its dtype. A missing value is nan in a float64 column and None in an
  object column; an int64 column has none.
\<close>

datatype series =
    IntS "int list"
  | FloatS "fnum list"
  | ObjS "string option list"

type_synonym frame = "(string \<times> series) list"

fun series_len :: "series \<Rightarrow> nat" where
  "series_len (IntS xs) = length xs"
| "series_len (FloatS xs) = length xs"
| "series_len (ObjS xs) = length xs"

text \<open>\<^verbatim>\<open>len(df)\<close>: the length of the index, which every column shares.\<close>

fun len_frame :: "frame \<Rightarrow> nat" where
  "len_frame [] = 0"
| "len_frame ((c, s) # _) = series_len s"

definition wf_frame :: "frame \<Rightarrow> bool" where
  "wf_frame df \<longleftrightarrow>
     distinct (map fst df) \<and> list_all (\<lambda>p. series_len (snd p) = len_frame df) df"

text \<open>\<^verbatim>\<open>df[c]\<close> raises KeyError when the frame has no column \<open>c\<close>.\<close>

definition getitem :: "frame \<Rightarrow> string \<Rightarrow> error + series" where
  "getitem df c = (case map_of df c of None \<Rightarrow> Inl (KeyError c) | Some s \<Rightarrow> Inr s)"

text \<open>
  \<^verbatim>\<open>df[c] = s\<close> replaces the column \<open>c\<close> where it stands, or appends it as the last column
  when the frame has none of that name.
\<close>

fun setitem :: "frame \<Rightarrow> string \<Rightarrow> series \<Rightarrow> frame" where
  "setitem [] c s = [(c, s)]"
| "setitem ((c', s') # df) c s =
     (if c' = c then (c, s) # df else (c', s') # setitem df c s)"

text \<open>
  Arithmetic between columns: int64 and float64 operands are numbers, an object column
  (strings, None) raises TypeError. The quotient of two columns is always float64.
\<close>

fun as_float :: "series \<Rightarrow> error + fnum list" where
  "as_float (IntS xs) = Inr (map (\<lambda>i. Fin (of_int i)) xs)"
| "as_float (FloatS xs) = Inr xs"
| "as_float (ObjS xs) = Inl TypeError"

definition truediv :: "series \<Rightarrow> series \<Rightarrow> error + fnum list" where
  "truediv a b =
     (case as_float a of Inl e \<Rightarrow> Inl e | Inr xs \<Rightarrow>
       (case as_float b of Inl e \<Rightarrow> Inl e | Inr ys \<Rightarrow>
          Inr (map2 fdiv xs ys)))"

fun sub_series :: "series \<Rightarrow> series \<Rightarrow> error + series" where
  "sub_series (IntS xs) (IntS ys) = Inr (IntS (map2 (\<lambda>x y. wrap64 (x - y)) xs ys))"
| "sub_series a b =
     (case as_float a of Inl e \<Rightarrow> Inl e | Inr xs \<Rightarrow>
       (case as_float b of Inl e \<Rightarrow> Inl e | Inr ys \<Rightarrow>
          Inr (FloatS (map2 fsub xs ys))))"

section \<open>The Metric Transformer\<close>

text \<open>
  A frame is a mutable object: the caller passes a reference, and \<^verbatim>\<open>df['ctr'] = ...\<close>
  writes into the object the caller holds. The heap maps references to frames; each
  transformer returns the heap it leaves and either the exception it raised or the
  reference it returned.
\<close>

type_synonym ref = nat
type_synonym heap = "ref \<Rightarrow> frame"

text \<open>
  \<^verbatim>\<open>transform_campaigns\<close>, lines 235 to 253. The column read by \<^verbatim>\<open>df['ctr'].fillna(0)\<close>
  is the one line 239 stored (line 242 stores under another name), so the model fills
  that list; the same holds for \<^verbatim>\<open>roi\<close>. The \<^verbatim>\<open>except\<close> clause logs and raises again.
\<close>

definition transform_campaigns :: "heap \<Rightarrow> ref \<Rightarrow> heap \<times> (error + ref)" where
  "transform_campaigns h df =
     (case getitem (h df) ''clicks'' of Inl e \<Rightarrow> (h, Inl e) | Inr clicks \<Rightarrow>
     (case getitem (h df) ''impressions'' of Inl e \<Rightarrow> (h, Inl e) | Inr impressions \<Rightarrow>
     (case truediv clicks impressions of Inl e \<Rightarrow> (h, Inl e) | Inr q \<Rightarrow>
     (let ctr = map (np_round 4) q;
          h1 = h(df := setitem (h df) ''ctr'' (FloatS ctr))
      in
     (case getitem (h1 df) ''revenue'' of Inl e \<Rightarrow> (h1, Inl e) | Inr revenue \<Rightarrow>
     (case getitem (h1 df) ''spend'' of Inl e \<Rightarrow> (h1, Inl e) | Inr spend \<Rightarrow>
     (case sub_series revenue spend of Inl e \<Rightarrow> (h1, Inl e) | Inr net \<Rightarrow>
     (case truediv net spend of Inl e \<Rightarrow> (h1, Inl e) | Inr q' \<Rightarrow>
     (let roi = map (np_round 2) q';
          h2 = h1(df := setitem (h1 df) ''roi'' (FloatS roi));
          h3 = h2(df := setitem (h2 df) ''ctr'' (FloatS (map fillna0 ctr)));
          h4 = h3(df := setitem (h3 df) ''roi'' (FloatS (map fillna0 roi)))
      in (h4, Inr df))))))))))"

text \<open>\<^verbatim>\<open>transform_targets\<close>, lines 255 to 267.\<close>

definition transform_targets :: "heap \<Rightarrow> ref \<Rightarrow> heap \<times> (error + ref)" where
  "transform_targets h df =
     (case getitem (h df) ''target_revenue'' of Inl e \<Rightarrow> (h, Inl e) | Inr revenue \<Rightarrow>
     (case getitem (h df) ''target_spend'' of Inl e \<Rightarrow> (h, Inl e) | Inr spend \<Rightarrow>
     (case truediv revenue spend of Inl e \<Rightarrow> (h, Inl e) | Inr q \<Rightarrow>
     (let roi = map (np_round 2) q;
          h1 = h(df := setitem (h df) ''target_roi'' (FloatS roi));
          h2 = h1(df := setitem (h1 df) ''target_roi'' (FloatS (map fillna0 roi)))
      in (h2, Inr df)))))"

text \<open>\<^verbatim>\<open>transform_customers\<close>, lines 269 to 281.\<close>

definition transform_customers :: "heap \<Rightarrow> ref \<Rightarrow> heap \<times> (error + ref)" where
  "transform_customers h df =
     (case getitem (h df) ''total_spent'' of Inl e \<Rightarrow> (h, Inl e) | Inr spent \<Rightarrow>
     (case getitem (h df) ''total_orders'' of Inl e \<Rightarrow> (h, Inl e) | Inr orders \<Rightarrow>
     (case truediv spent orders of Inl e \<Rightarrow> (h, Inl e) | Inr q \<Rightarrow>
     (let aov = map (np_round 2) q;
          h1 = h(df := setitem (h df) ''avg_order_value'' (FloatS aov));
          h2 = h1(df := setitem (h1 df) ''avg_order_value'' (FloatS (map fillna0 aov)))
      in (h2, Inr df)))))"


section \<open>The warehouse: an SQLite store\<close>

datatype sqlval = SNull | SInt int | SReal fnum | SText string

datatype coldefault = NoDefault | CurrentTimestamp

text \<open>
  A column definition of \<^verbatim>\<open>CREATE TABLE\<close>: its name, its declared type, \<^verbatim>\<open>NOT NULL\<close>,
  \<^verbatim>\<open>INTEGER PRIMARY KEY AUTOINCREMENT\<close>, and its default.
\<close>

record coldef =
  col_name :: string
  col_type :: string
  not_null :: bool
  autoinc_key :: bool
  col_default :: coldefault

type_synonym row = "(string \<times> sqlval) list"

text \<open>
  A table: its columns, its rows in the order of insertion, and the largest identifier
  it has ever used (the table's entry in \<^verbatim>\<open>sqlite_sequence\<close>).
\<close>

record table =
  schema :: "coldef list"
  rows :: "row list"
  seq :: int

type_synonym database = "string \<rightharpoonup> table"

text \<open>
  The pipeline object together with the store file it works on: the tables in the file,
  and whether \<^verbatim>\<open>self.conn\<close> is an open connection.
\<close>

record etl =
  store :: database
  conn_open :: bool

definition plain_col :: "string \<Rightarrow> string \<Rightarrow> coldef" where
  "plain_col n ty =
     \<lparr>col_name = n, col_type = ty, not_null = False, autoinc_key = False,
      col_default = NoDefault\<rparr>"

definition required_col :: "string \<Rightarrow> string \<Rightarrow> coldef" where
  "required_col n ty =
     \<lparr>col_name = n, col_type = ty, not_null = True, autoinc_key = False,
      col_default = NoDefault\<rparr>"

definition id_col :: coldef where
  "id_col =
     \<lparr>col_name = ''id'', col_type = ''INTEGER'', not_null = False, autoinc_key = True,
      col_default = NoDefault\<rparr>"

definition created_at_col :: coldef where
  "created_at_col =
     \<lparr>col_name = ''created_at'', col_type = ''TIMESTAMP'', not_null = False,
      autoinc_key = False, col_default = CurrentTimestamp\<rparr>"

text \<open>The three \<^verbatim>\<open>CREATE TABLE\<close> statements of \<^verbatim>\<open>setup_database\<close>, lines 109 to 158.\<close>

definition fact_campaigns_schema :: "coldef list" where
  "fact_campaigns_schema =
     [id_col,
      required_col ''tenant_id'' ''TEXT'',
      required_col ''campaign_id'' ''TEXT'',
      plain_col ''campaign_name'' ''TEXT'',
      plain_col ''date'' ''TEXT'',
      plain_col ''impressions'' ''INTEGER'',
      plain_col ''clicks'' ''INTEGER'',
      plain_col ''conversions'' ''INTEGER'',
      plain_col ''spend'' ''REAL'',
      plain_col ''revenue'' ''REAL'',
      plain_col ''ctr'' ''REAL'',
      plain_col ''roi'' ''REAL'',
      plain_col ''region'' ''TEXT'',
      plain_col ''product'' ''TEXT'',
      created_at_col]"

definition dim_sales_targets_schema :: "coldef list" where
  "dim_sales_targets_schema =
     [id_col,
      required_col ''tenant_id'' ''TEXT'',
      plain_col ''region'' ''TEXT'',
      plain_col ''product'' ''TEXT'',
      plain_col ''month'' ''INTEGER'',
      plain_col ''year'' ''INTEGER'',
      plain_col ''target_revenue'' ''REAL'',
      plain_col ''target_conversions'' ''INTEGER'',
      plain_col ''target_spend'' ''REAL'',
      created_at_col]"

definition dim_customers_schema :: "coldef list" where
  "dim_customers_schema =
     [id_col,
      required_col ''tenant_id'' ''TEXT'',
      required_col ''customer_id'' ''TEXT'',
      plain_col ''customer_name'' ''TEXT'',
      plain_col ''region'' ''TEXT'',
      plain_col ''product_preference'' ''TEXT'',
      plain_col ''total_spent'' ''REAL'',
      plain_col ''total_orders'' ''INTEGER'',
      created_at_col]"

text \<open>The three schemas of the warehouse.\<close>

definition warehouse_schema :: "coldef list \<Rightarrow> bool" where
  "warehouse_schema cs \<longleftrightarrow>
     cs = fact_campaigns_schema \<or> cs = dim_sales_targets_schema \<or> cs = dim_customers_schema"


text \<open>The rows of a table of the store; a table the store does not have has none.\<close>

definition table_rows :: "etl \<Rightarrow> string \<Rightarrow> row list" where
  "table_rows st name = (case store st name of None \<Rightarrow> [] | Some t \<Rightarrow> rows t)"

section \<open>The Schema Manager\<close>

text \<open>\<^verbatim>\<open>CREATE TABLE IF NOT EXISTS\<close>: a table of that name is left as it is.\<close>

definition create_table_if_not_exists :: "string \<Rightarrow> coldef list \<Rightarrow> database \<Rightarrow> database" where
  "create_table_if_not_exists name cols db =
     (case db name of
        None \<Rightarrow> db(name \<mapsto> \<lparr>schema = cols, rows = [], seq = 0\<rparr>)
      | Some t \<Rightarrow> db)"

text \<open>
  \<^verbatim>\<open>setup_database\<close>, lines 102 to 165: connect to the store file (SQLite opens the file
  or creates it), run the three statements, commit.
\<close>

definition setup_database :: "etl \<Rightarrow> etl" where
  "setup_database st =
     \<lparr>store =
        create_table_if_not_exists ''dim_customers'' dim_customers_schema
          (create_table_if_not_exists ''dim_sales_targets'' dim_sales_targets_schema
            (create_table_if_not_exists ''fact_campaigns'' fact_campaigns_schema
              (store st))),
      conn_open = True\<rparr>"

section \<open>The Warehouse Loader\<close>

text \<open>
  \<^verbatim>\<open>DataFrame.to_sql\<close> binds an int64 value as an integer, a float64 value as a real and
  a string as a text; a missing value (nan, None) is bound as NULL.
\<close>

fun float_cell :: "fnum \<Rightarrow> sqlval" where
  "float_cell NaN = SNull"
| "float_cell x = SReal x"

fun obj_cell :: "string option \<Rightarrow> sqlval" where
  "obj_cell None = SNull"
| "obj_cell (Some s) = SText s"

fun cells :: "series \<Rightarrow> sqlval list" where
  "cells (IntS xs) = map SInt xs"
| "cells (FloatS xs) = map float_cell xs"
| "cells (ObjS xs) = map obj_cell xs"

text \<open>
  The records of a frame, one per position of the index, each naming its columns. In a
  well-formed frame every column has the length of the index, so each position read
  below is in range.
\<close>

definition records :: "frame \<Rightarrow> row list" where
  "records df = map (\<lambda>i. map (\<lambda>(c, s). (c, cells s ! i)) df) [0..<len_frame df]"

text \<open>The table \<^verbatim>\<open>to_sql\<close> creates when there is none: one column per column of the frame.\<close>

fun dtype_sql :: "series \<Rightarrow> string" where
  "dtype_sql (IntS _) = ''INTEGER''"
| "dtype_sql (FloatS _) = ''REAL''"
| "dtype_sql (ObjS _) = ''TEXT''"

definition frame_schema :: "frame \<Rightarrow> coldef list" where
  "frame_schema df = map (\<lambda>(c, s). plain_col c (dtype_sql s)) df"

text \<open>
  The value \<^verbatim>\<open>INSERT\<close> gives to a column: the one the record binds, or the column's
  default when the record has no such column.
\<close>

definition supplied :: "coldef \<Rightarrow> row \<Rightarrow> string \<Rightarrow> sqlval" where
  "supplied cd r now =
     (case map_of r (col_name cd) of
        Some v \<Rightarrow> v
      | None \<Rightarrow> (case col_default cd of CurrentTimestamp \<Rightarrow> SText now | NoDefault \<Rightarrow> SNull))"

definition cell :: "row \<Rightarrow> string \<Rightarrow> sqlval" where
  "cell r c = (case map_of r c of Some v \<Rightarrow> v | None \<Rightarrow> SNull)"

text \<open>
  The largest identifier in use: the table's sequence entry or a stored identifier,
  whichever is larger.
\<close>

fun int_of_cell :: "sqlval \<Rightarrow> int option" where
  "int_of_cell (SInt i) = Some i"
| "int_of_cell _ = None"

definition id_step :: "string \<Rightarrow> row \<Rightarrow> int \<Rightarrow> int" where
  "id_step c r m = (case int_of_cell (cell r c) of Some i \<Rightarrow> max i m | None \<Rightarrow> m)"

definition max_id :: "table \<Rightarrow> string \<Rightarrow> int" where
  "max_id t c = fold (id_step c) (rows t) (seq t)"

text \<open>
  An explicit identifier must be new in the table. A real is taken when it is a whole
  number; SQLite refuses every other value for the key with "datatype mismatch", which
  the \<^verbatim>\<open>sqlite3\<close> module raises as IntegrityError. (A text that reads as a whole number
  would be taken as that number; the model refuses every text.)
\<close>

definition explicit_id :: "table \<Rightarrow> string \<Rightarrow> int \<Rightarrow> error + sqlval" where
  "explicit_id t c i =
     (if SInt i \<in> set (map (\<lambda>r. cell r c) (rows t)) then Inl IntegrityError
      else Inr (SInt i))"

fun key_cell :: "table \<Rightarrow> string \<Rightarrow> sqlval \<Rightarrow> error + sqlval" where
  "key_cell t c SNull = Inr (SInt (max_id t c + 1))"
| "key_cell t c (SInt i) = explicit_id t c i"
| "key_cell t c (SReal (Fin x)) =
     (if of_int \<lfloor>x\<rfloor> = x then explicit_id t c \<lfloor>x\<rfloor> else Inl IntegrityError)"
| "key_cell t c (SReal _) = Inl IntegrityError"
| "key_cell t c (SText _) = Inl IntegrityError"

definition store_cell :: "table \<Rightarrow> coldef \<Rightarrow> sqlval \<Rightarrow> error + sqlval" where
  "store_cell t cd v =
     (if autoinc_key cd then key_cell t (col_name cd) v
      else if not_null cd \<and> v = SNull then Inl IntegrityError
      else Inr v)"

fun store_cells :: "table \<Rightarrow> coldef list \<Rightarrow> row \<Rightarrow> string \<Rightarrow> error + row" where
  "store_cells t [] r now = Inr []"
| "store_cells t (cd # cds) r now =
     (case store_cell t cd (supplied cd r now) of
        Inl e \<Rightarrow> Inl e
      | Inr v \<Rightarrow>
         (case store_cells t cds r now of
            Inl e \<Rightarrow> Inl e
          | Inr vs \<Rightarrow> Inr ((col_name cd, v) # vs)))"

text \<open>One \<^verbatim>\<open>INSERT\<close>: the new row goes last, and the sequence entry follows the key.\<close>

definition new_seq :: "table \<Rightarrow> row \<Rightarrow> int" where
  "new_seq t r =
     fold (\<lambda>cd m. if autoinc_key cd then id_step (col_name cd) r m else m) (schema t) (seq t)"

definition insert_row :: "table \<Rightarrow> row \<Rightarrow> string \<Rightarrow> error + table" where
  "insert_row t r now =
     (case store_cells t (schema t) r now of
        Inl e \<Rightarrow> Inl e
      | Inr r' \<Rightarrow> Inr (t\<lparr>rows := rows t @ [r'], seq := new_seq t r'\<rparr>))"

fun insert_rows :: "table \<Rightarrow> row list \<Rightarrow> string \<Rightarrow> error + table" where
  "insert_rows t [] now = Inr t"
| "insert_rows t (r # rs) now =
     (case insert_row t r now of
        Inl e \<Rightarrow> Inl e
      | Inr t' \<Rightarrow> insert_rows t' rs now)"

text \<open>
  \<^verbatim>\<open>SQLiteTable.insert\<close>: a frame without rows returns before any statement runs. The
  statement names every column of the frame, so SQLite refuses it (OperationalError)
  when the table lacks one of them. All rows go in one transaction.
\<close>

definition insert_frame :: "table \<Rightarrow> frame \<Rightarrow> string \<Rightarrow> error + table" where
  "insert_frame t df now =
     (if len_frame df = 0 then Inr t
      else if \<not> list_all (\<lambda>c. c \<in> set (map col_name (schema t))) (map fst df)
        then Inl OperationalError
      else insert_rows t (records df) now)"

text \<open>
  \<^verbatim>\<open>df.to_sql(name, conn, if_exists='append', index=False)\<close>: create the table from the
  frame when the store has none of that name, then insert. A failed insert is rolled
  back, so an error leaves the tables as they were.
\<close>

definition to_sql :: "database \<Rightarrow> frame \<Rightarrow> string \<Rightarrow> string \<Rightarrow> error + database" where
  "to_sql db df name now =
     (let t = (case db name of
                 None \<Rightarrow> \<lparr>schema = frame_schema df, rows = [], seq = 0\<rparr>
               | Some t \<Rightarrow> t)
      in case insert_frame t df now of
           Inl e \<Rightarrow> Inl e
         | Inr t' \<Rightarrow> Inr (db(name \<mapsto> t')))"

text \<open>
  \<^verbatim>\<open>load_to_database\<close>, lines 283 to 291; \<open>now\<close> is what \<^verbatim>\<open>CURRENT_TIMESTAMP\<close> reads during
  the call. On a closed connection pandas raises DatabaseError at its first statement.
  The \<^verbatim>\<open>except\<close> clause logs and raises again.
\<close>

definition load_to_database :: "etl \<Rightarrow> frame \<Rightarrow> string \<Rightarrow> string \<Rightarrow> etl \<times> (error + unit)" where
  "load_to_database st df table_name now =
     (if \<not> conn_open st then (st, Inl DatabaseError)
      else (case to_sql (store st) df table_name now of
              Inl e \<Rightarrow> (st, Inl e)
            | Inr db \<Rightarrow> (st\<lparr>store := db\<rparr>, Inr ())))"

section \<open>The Report Engine\<close>

text \<open>
  SQLite orders values of different kinds: NULL first, then the numbers by their value,
  then the texts by their bytes. \<^verbatim>\<open>GROUP BY\<close> and \<^verbatim>\<open>ORDER BY\<close> compare by this order, so
  the integer 1 and the real 1.0 fall into one group.
\<close>

fun order_key :: "sqlval \<Rightarrow> nat \<times> rat \<times> string" where
  "order_key SNull = (0, 0, [])"
| "order_key (SReal NaN) = (0, 0, [])"
| "order_key (SReal NInf) = (1, 0, [])"
| "order_key (SInt i) = (2, of_int i, [])"
| "order_key (SReal (Fin x)) = (2, x, [])"
| "order_key (SReal PInf) = (3, 0, [])"
| "order_key (SText s) = (4, 0, s)"

text \<open>
  The groups of a list sorted by the key: each maximal run of equal keys, as its first
  element and the elements after it.
\<close>

function groups :: "('a \<Rightarrow> 'k) \<Rightarrow> 'a list \<Rightarrow> ('a \<times> 'a list) list" where
  "groups k [] = []"
| "groups k (x # xs) =
     (x, takeWhile (\<lambda>y. k y = k x) xs) # groups k (dropWhile (\<lambda>y. k y = k x) xs)"
  by pat_completeness auto
termination
  by (relation "measure (\<lambda>p. length (snd p))") (auto simp: length_dropWhile_le less_Suc_eq_le)

definition whole :: "'a \<times> 'a list \<Rightarrow> 'a list" where
  "whole g = fst g # snd g"

text \<open>
  \<^verbatim>\<open>GROUP BY k ORDER BY k\<close>: sort the rows by the key (rows of one key keep their order
  of insertion), then cut the sorted list into its groups.
\<close>

definition group_by :: "('a \<Rightarrow> 'k::linorder) \<Rightarrow> 'a list \<Rightarrow> ('a \<times> 'a list) list" where
  "group_by k xs = groups k (sort_key k xs)"

definition column :: "string \<Rightarrow> row list \<Rightarrow> sqlval list" where
  "column c rs = map (\<lambda>r. cell r c) rs"

text \<open>
  The aggregates skip NULL. \<^verbatim>\<open>SUM\<close> is NULL when nothing is left, an integer when every
  value is an integer, and a real otherwise; \<^verbatim>\<open>AVG\<close> is the real total over the number
  of values. A text counts as 0. A result that is nan is returned as NULL.
\<close>

fun numeric :: "sqlval \<Rightarrow> fnum" where
  "numeric SNull = Fin 0"
| "numeric (SInt i) = Fin (of_int i)"
| "numeric (SReal x) = x"
| "numeric (SText s) = Fin 0"

definition total :: "sqlval list \<Rightarrow> fnum" where
  "total vs = fold (\<lambda>v acc. fadd acc (numeric v)) vs (Fin 0)"

definition int_total :: "sqlval list \<Rightarrow> int" where
  "int_total vs = fold (\<lambda>v acc. case int_of_cell v of Some i \<Rightarrow> acc + i | None \<Rightarrow> acc) vs 0"

definition non_null :: "sqlval list \<Rightarrow> sqlval list" where
  "non_null vs = filter (\<lambda>v. v \<noteq> SNull) vs"

definition sql_sum :: "sqlval list \<Rightarrow> sqlval" where
  "sql_sum vs =
     (let ws = non_null vs
      in if ws = [] then SNull
         else if list_all (\<lambda>v. int_of_cell v \<noteq> None) ws then SInt (int_total ws)
         else float_cell (total ws))"

definition sql_avg :: "sqlval list \<Rightarrow> sqlval" where
  "sql_avg vs =
     (let ws = non_null vs
      in if ws = [] then SNull
         else float_cell (fdiv (total ws) (Fin (of_nat (length ws)))))"

text \<open>\<^verbatim>\<open>ROUND(x, d)\<close> rounds to \<open>d\<close> decimal places, a tie away from zero.\<close>

definition round_away :: "rat \<Rightarrow> int" where
  "round_away y = (if 0 \<le> y then \<lfloor>y + 1 / 2\<rfloor> else - \<lfloor>- y + 1 / 2\<rfloor>)"

definition round_to :: "nat \<Rightarrow> rat \<Rightarrow> rat" where
  "round_to d x = of_int (round_away (x * 10 ^ d)) / 10 ^ d"

fun sql_round :: "nat \<Rightarrow> sqlval \<Rightarrow> sqlval" where
  "sql_round d SNull = SNull"
| "sql_round d (SReal (Fin x)) = SReal (Fin (round_to d x))"
| "sql_round d (SReal x) = SReal x"
| "sql_round d (SInt i) = SReal (Fin (of_int i))"
| "sql_round d (SText s) = SReal (Fin 0)"

text \<open>The row the \<^verbatim>\<open>campaign_summary\<close> query returns for one group, lines 297 to 311.\<close>

definition summary_row :: "row \<times> row list \<Rightarrow> row" where
  "summary_row g =
     (let rs = whole g
      in [(''tenant_id'', cell (fst g) ''tenant_id''),
          (''total_campaigns'', SInt (int (length rs))),
          (''total_impressions'', sql_sum (column ''impressions'' rs)),
          (''total_clicks'', sql_sum (column ''clicks'' rs)),
          (''total_conversions'', sql_sum (column ''conversions'' rs)),
          (''total_spend'', sql_sum (column ''spend'' rs)),
          (''total_revenue'', sql_sum (column ''revenue'' rs)),
          (''avg_ctr'', sql_round 4 (sql_avg (column ''ctr'' rs))),
          (''avg_roi'', sql_round 2 (sql_avg (column ''roi'' rs)))])"

definition tenant_key :: "row \<Rightarrow> nat \<times> rat \<times> string" where
  "tenant_key r = order_key (cell r ''tenant_id'')"

definition campaign_summary :: "row list \<Rightarrow> row list" where
  "campaign_summary rs = map summary_row (group_by tenant_key rs)"

text \<open>The row the \<^verbatim>\<open>daily_performance\<close> query returns for one group, lines 313 to 324.\<close>

definition daily_row :: "row \<times> row list \<Rightarrow> row" where
  "daily_row g =
     (let rs = whole g
      in [(''tenant_id'', cell (fst g) ''tenant_id''),
          (''date'', cell (fst g) ''date''),
          (''daily_conversions'', sql_sum (column ''conversions'' rs)),
          (''daily_revenue'', sql_sum (column ''revenue'' rs)),
          (''daily_spend'', sql_sum (column ''spend'' rs))])"

definition day_key :: "row \<Rightarrow> (nat \<times> rat \<times> string) \<times> (nat \<times> rat \<times> string)" where
  "day_key r = (order_key (cell r ''tenant_id''), order_key (cell r ''date''))"

definition daily_performance :: "row list \<Rightarrow> row list" where
  "daily_performance rs = take 50 (map daily_row (group_by day_key rs))"








text \<open>
  \<^verbatim>\<open>pd.read_sql_query\<close> on \<^verbatim>\<open>fact_campaigns\<close>: pandas raises DatabaseError when the connection
  is closed, when the store has no such table, or when the table lacks a column the
  statement names.
\<close>

definition read_fact_campaigns :: "etl \<Rightarrow> string list \<Rightarrow> error + row list" where
  "read_fact_campaigns st cols =
     (if \<not> conn_open st then Inl DatabaseError
      else (case store st ''fact_campaigns'' of
              None \<Rightarrow> Inl DatabaseError
            | Some t \<Rightarrow>
                if list_all (\<lambda>c. c \<in> set (map col_name (schema t))) cols
                then Inr (rows t) else Inl DatabaseError))"

text \<open>
  \<^verbatim>\<open>execute_dashboard_query\<close>, lines 293 to 333. The state is returned as the call leaves
  it. The \<^verbatim>\<open>except\<close> clause logs and raises again.
\<close>

definition execute_dashboard_query :: "etl \<Rightarrow> string \<Rightarrow> etl \<times> (error + row list)" where
  "execute_dashboard_query st query_type =
     (if query_type = ''campaign_summary'' then
        (st, case read_fact_campaigns st
                    [''tenant_id'', ''impressions'', ''clicks'', ''conversions'', ''spend'',
                     ''revenue'', ''ctr'', ''roi''] of
               Inl e \<Rightarrow> Inl e
             | Inr rs \<Rightarrow> Inr (campaign_summary rs))
      else if query_type = ''daily_performance'' then
        (st, case read_fact_campaigns st
                    [''tenant_id'', ''date'', ''conversions'', ''revenue'', ''spend''] of
               Inl e \<Rightarrow> Inl e
             | Inr rs \<Rightarrow> Inr (daily_performance rs))
      else (st, Inl (ValueError (''Unknown query type: '' @ query_type))))"

text \<open>\<^verbatim>\<open>close_connection\<close>, lines 335 to 339.\<close>

definition close_connection :: "etl \<Rightarrow> etl" where
  "close_connection st = (if conn_open st then st\<lparr>conn_open := False\<rparr> else st)"

section \<open>The run\<close>

text \<open>
  What the stages outside the model deliver to one run of \<^verbatim>\<open>main\<close>: whether each of the
  two generator calls raised, what the file readers return or raise, the frame the mock
  API returns, and what \<^verbatim>\<open>CURRENT_TIMESTAMP\<close> reads during each of the three loads.
\<close>

record run_inputs =
  generated_campaigns :: "error option"
  generated_targets :: "error option"
  csv_data :: "error + frame"
  excel_data :: "error + frame"
  api_data :: frame
  clock :: "nat \<Rightarrow> string"

text \<open>
  \<^verbatim>\<open>main\<close>, lines 341 to 391, from the state of the store file before the run. The three
  extracted frames are new objects, at the references 0, 1 and 2. The result is the two
  tables the run prints. The \<^verbatim>\<open>except\<close> clause logs and raises again; the only call of
  \<^verbatim>\<open>close_connection\<close> is the last statement of the \<^verbatim>\<open>try\<close> block.
\<close>

definition main :: "run_inputs \<Rightarrow> etl \<Rightarrow> etl \<times> (error + row list \<times> row list)" where
  "main inp st0 =
     (let st1 = setup_database st0 in
     (case generated_campaigns inp of Some e \<Rightarrow> (st1, Inl e) | None \<Rightarrow>
     (case generated_targets inp of Some e \<Rightarrow> (st1, Inl e) | None \<Rightarrow>
     (case csv_data inp of Inl e \<Rightarrow> (st1, Inl e) | Inr campaigns_data \<Rightarrow>
     (case excel_data inp of Inl e \<Rightarrow> (st1, Inl e) | Inr targets_data \<Rightarrow>
     (let h = (\<lambda>_. [])(0 := campaigns_data, 1 := targets_data, 2 := api_data inp) in
     (case transform_campaigns h 0 of
        (h1, Inl e) \<Rightarrow> (st1, Inl e)
      | (h1, Inr campaigns_transformed) \<Rightarrow>
     (case transform_targets h1 1 of
        (h2, Inl e) \<Rightarrow> (st1, Inl e)
      | (h2, Inr targets_transformed) \<Rightarrow>
     (case transform_customers h2 2 of
        (h3, Inl e) \<Rightarrow> (st1, Inl e)
      | (h3, Inr customers_transformed) \<Rightarrow>
     (case load_to_database st1 (h3 campaigns_transformed) ''fact_campaigns'' (clock inp 0) of
        (st2, Inl e) \<Rightarrow> (st2, Inl e)
      | (st2, Inr _) \<Rightarrow>
     (case load_to_database st2 (h3 targets_transformed) ''dim_sales_targets'' (clock inp 1) of
        (st3, Inl e) \<Rightarrow> (st3, Inl e)
      | (st3, Inr _) \<Rightarrow>
     (case load_to_database st3 (h3 customers_transformed) ''dim_customers'' (clock inp 2) of
        (st4, Inl e) \<Rightarrow> (st4, Inl e)
      | (st4, Inr _) \<Rightarrow>
     (case execute_dashboard_query st4 ''campaign_summary'' of
        (st5, Inl e) \<Rightarrow> (st5, Inl e)
      | (st5, Inr summary_df) \<Rightarrow>
     (case execute_dashboard_query st5 ''daily_performance'' of
        (st6, Inl e) \<Rightarrow> (st6, Inl e)
      | (st6, Inr daily_df) \<Rightarrow>
          (close_connection st6, Inr (summary_df, take 10 daily_df))))))))))))))))"

section \<open>Example inputs\<close>

text \<open>
  One record of each kind, shaped as the generator and the mock API shape them, a run that
  extracts these three frames, a store file that does not exist yet, and a store that
  holds the three tables with one campaign row.
\<close>

definition example_campaigns :: frame where
  "example_campaigns =
     [(''tenant_id'', ObjS [Some ''tenant_a'']),
      (''campaign_id'', ObjS [Some ''camp_tenant_a_000'']),
      (''campaign_name'', ObjS [Some ''Campaign 1 - Search'']),
      (''date'', ObjS [Some ''2024-10-01'']),
      (''impressions'', IntS [5000]),
      (''clicks'', IntS [100]),
      (''conversions'', IntS [10]),
      (''spend'', FloatS [Fin 100]),
      (''revenue'', FloatS [Fin 250]),
      (''region'', ObjS [Some ''North'']),
      (''product'', ObjS [Some ''Product A''])]"

definition example_loaded :: frame where
  "example_loaded =
     example_campaigns @ [(''ctr'', FloatS [Fin (1 / 50)]), (''roi'', FloatS [Fin (3 / 2)])]"

definition example_targets :: frame where
  "example_targets =
     [(''tenant_id'', ObjS [Some ''tenant_a'']),
      (''region'', ObjS [Some ''North'']),
      (''product'', ObjS [Some ''Product A'']),
      (''month'', IntS [1]),
      (''year'', IntS [2024]),
      (''target_revenue'', FloatS [Fin 5000]),
      (''target_conversions'', IntS [50]),
      (''target_spend'', FloatS [Fin 2000])]"

definition example_customers :: frame where
  "example_customers =
     [(''tenant_id'', ObjS [Some ''tenant_a'']),
      (''customer_id'', ObjS [Some ''cust_tenant_a_000'']),
      (''customer_name'', ObjS [Some ''Customer 1'']),
      (''region'', ObjS [Some ''North'']),
      (''product_preference'', ObjS [Some ''Product A'']),
      (''total_spent'', FloatS [Fin 100]),
      (''total_orders'', IntS [1])]"


definition example_run :: run_inputs where
  "example_run =
     \<lparr>generated_campaigns = None, generated_targets = None,
      csv_data = Inr example_campaigns, excel_data = Inr example_targets,
      api_data = example_customers, clock = (\<lambda>_. ''2024-11-04 10:00:00'')\<rparr>"

definition new_store :: etl where
  "new_store = \<lparr>store = Map.empty, conn_open = False\<rparr>"

definition example_row :: row where
  "example_row =
     [(''id'', SInt 1),
      (''tenant_id'', SText ''tenant_a''),
      (''campaign_id'', SText ''camp_tenant_a_000''),
      (''campaign_name'', SText ''Campaign 1 - Search''),
      (''date'', SText ''2024-10-01''),
      (''impressions'', SInt 5000),
      (''clicks'', SInt 100),
      (''conversions'', SInt 10),
      (''spend'', SReal (Fin 100)),
      (''revenue'', SReal (Fin 250)),
      (''ctr'', SReal (Fin (1 / 50))),
      (''roi'', SReal (Fin (3 / 2))),
      (''region'', SText ''North''),
      (''product'', SText ''Product A''),
      (''created_at'', SText ''2024-11-04 10:00:00'')]"

definition example_store :: etl where
  "example_store =
     \<lparr>store =
        [''fact_campaigns'' \<mapsto> \<lparr>schema = fact_campaigns_schema, rows = [example_row], seq = 1\<rparr>,
         ''dim_sales_targets'' \<mapsto> \<lparr>schema = dim_sales_targets_schema, rows = [], seq = 0\<rparr>,
         ''dim_customers'' \<mapsto> \<lparr>schema = dim_customers_schema, rows = [], seq = 0\<rparr>],
      conn_open = True\<rparr>"





section \<open>Results\<close>

lemmas schema_defs =
  fact_campaigns_schema_def dim_sales_targets_schema_def dim_customers_schema_def
  id_col_def required_col_def plain_col_def created_at_col_def

subsection \<open>The Metric Transformer at a zero denominator\<close>

text \<open>
  The value the transformers derive from a numerator \<open>a\<close> and a denominator \<open>b\<close>: the
  rounded quotient when \<open>b\<close> is not 0, and 0 when both are 0; but inf or -inf, by the
  sign of \<open>a\<close>, when only \<open>b\<close> is 0.
\<close>

lemma derived_ratio_value:
  "fillna0 (np_round d (fdiv (Fin a) (Fin b))) =
     (if b = 0 then (if a = 0 then Fin 0 else if 0 < a then PInf else NInf)
      else Fin (of_int (rint (a / b * 10 ^ d)) / 10 ^ d))"
  by simp

lemma transform_customers_one_record:
  "transform_customers
     (h(df := [(''total_spent'', FloatS [Fin a]), (''total_orders'', IntS [n])])) df =
   (h(df := [(''total_spent'', FloatS [Fin a]), (''total_orders'', IntS [n]),
             (''avg_order_value'',
              FloatS [if n = 0 then (if a = 0 then Fin 0 else if 0 < a then PInf else NInf)
                      else Fin (of_int (rint (a / of_int n * 10 ^ 2)) / 10 ^ 2)])]),
    Inr df)"
  by (simp add: transform_customers_def getitem_def truediv_def)

text \<open>
  Claim C1 says that a derived ratio is 0 whenever its denominator is 0. The division of
  a non-zero number by zero is inf, \<^verbatim>\<open>round\<close> keeps inf, and \<^verbatim>\<open>fillna(0)\<close> replaces nan
  only: for the customer record with \<^verbatim>\<open>total_spent = 500\<close> and \<^verbatim>\<open>total_orders = 0\<close>
  (the scenario of the specification) \<^verbatim>\<open>transform_customers\<close> stores inf in
  \<^verbatim>\<open>avg_order_value\<close>, not 0.
\<close>

theorem transform_customers_zero_orders:
  "transform_customers
     (h(df := [(''total_spent'', FloatS [Fin 500]), (''total_orders'', IntS [0])])) df =
   (h(df := [(''total_spent'', FloatS [Fin 500]), (''total_orders'', IntS [0]),
             (''avg_order_value'', FloatS [PInf])]),
    Inr df)"
  by (simp add: transform_customers_def getitem_def truediv_def)

subsection \<open>The Metric Transformer and its input\<close>






















subsection \<open>The Schema Manager\<close>

text \<open>
  Claim C2 says that the Sales Target Dimension has a column \<^verbatim>\<open>target_roi\<close> and the
  Customer Dimension a column \<^verbatim>\<open>avg_order_value\<close>. On a store without tables,
  \<^verbatim>\<open>setup_database\<close> creates both tables with the columns below, and neither derived
  column is among them.
\<close>

theorem setup_database_dimension_columns:
  "(\<exists>t. store (setup_database new_store) ''dim_sales_targets'' = Some t
      \<and> map col_name (schema t) =
          [''id'', ''tenant_id'', ''region'', ''product'', ''month'', ''year'',
           ''target_revenue'', ''target_conversions'', ''target_spend'', ''created_at'']
      \<and> ''target_roi'' \<notin> set (map col_name (schema t)))
   \<and> (\<exists>t. store (setup_database new_store) ''dim_customers'' = Some t
      \<and> map col_name (schema t) =
          [''id'', ''tenant_id'', ''customer_id'', ''customer_name'', ''region'',
           ''product_preference'', ''total_spent'', ''total_orders'', ''created_at'']
      \<and> ''avg_order_value'' \<notin> set (map col_name (schema t)))"
  by (simp add: new_store_def setup_database_def create_table_if_not_exists_def schema_defs)

lemma create_table_keeps:
  "db name = Some t \<Longrightarrow> create_table_if_not_exists n cols db name = Some t"
  by (auto simp: create_table_if_not_exists_def split: option.splits)

lemma create_table_present:
  "db n \<noteq> None \<Longrightarrow> create_table_if_not_exists n cols db = db"
  by (auto simp: create_table_if_not_exists_def split: option.splits)

lemma create_table_twice:
  "create_table_if_not_exists n cols (create_table_if_not_exists n cols db) =
   create_table_if_not_exists n cols db"
  by (auto simp: create_table_if_not_exists_def split: option.splits)

lemma create_table_self: "create_table_if_not_exists n cols db n \<noteq> None"
  by (auto simp: create_table_if_not_exists_def split: option.splits)

lemma create_table_mono:
  "db m \<noteq> None \<Longrightarrow> create_table_if_not_exists n cols db m \<noteq> None"
  by (auto simp: create_table_if_not_exists_def split: option.splits)

text \<open>
  Claim C10: \<^verbatim>\<open>setup_database\<close> is idempotent. A second call changes nothing; every
  table the store already has is kept with its columns and all its rows; and on a store
  that holds the three tables the call leaves the store as it is.
\<close>

theorem setup_database_idempotent:
  "setup_database (setup_database st) = setup_database st
   \<and> (\<forall>name t. store st name = Some t \<longrightarrow> store (setup_database st) name = Some t)
   \<and> (store st ''fact_campaigns'' \<noteq> None \<and> store st ''dim_sales_targets'' \<noteq> None
        \<and> store st ''dim_customers'' \<noteq> None
      \<longrightarrow> store (setup_database st) = store st)"
proof (intro conjI allI impI)
  let ?a = "create_table_if_not_exists ''fact_campaigns'' fact_campaigns_schema (store st)"
  let ?b = "create_table_if_not_exists ''dim_sales_targets'' dim_sales_targets_schema ?a"
  let ?c = "create_table_if_not_exists ''dim_customers'' dim_customers_schema ?b"
  have a: "?c ''fact_campaigns'' \<noteq> None"
    by (intro create_table_mono create_table_self)
  have b: "?c ''dim_sales_targets'' \<noteq> None"
    by (intro create_table_mono create_table_self)
  have c: "?c ''dim_customers'' \<noteq> None"
    by (intro create_table_mono create_table_self)
  have s1: "create_table_if_not_exists ''fact_campaigns'' fact_campaigns_schema ?c = ?c"
    using a by (rule create_table_present)
  have s2: "create_table_if_not_exists ''dim_sales_targets'' dim_sales_targets_schema ?c = ?c"
    using b by (rule create_table_present)
  have s3: "create_table_if_not_exists ''dim_customers'' dim_customers_schema ?c = ?c"
    using c by (rule create_table_present)
  have "create_table_if_not_exists ''dim_customers'' dim_customers_schema
          (create_table_if_not_exists ''dim_sales_targets'' dim_sales_targets_schema
            (create_table_if_not_exists ''fact_campaigns'' fact_campaigns_schema ?c)) = ?c"
    by (simp only: s1 s2 s3)
  then show "setup_database (setup_database st) = setup_database st"
    by (simp add: setup_database_def)
next
  fix name t
  assume "store st name = Some t"
  then show "store (setup_database st) name = Some t"
    by (simp add: setup_database_def create_table_keeps)
next
  assume "store st ''fact_campaigns'' \<noteq> None \<and> store st ''dim_sales_targets'' \<noteq> None
            \<and> store st ''dim_customers'' \<noteq> None"
  then show "store (setup_database st) = store st"
    by (simp add: setup_database_def create_table_present)
qed

theorem setup_database_idempotent_witness:
  "store (setup_database example_store) = store example_store
   \<and> store (setup_database example_store) ''fact_campaigns''
       = Some \<lparr>schema = fact_campaigns_schema, rows = [example_row], seq = 1\<rparr>"
proof -
  have present: "store example_store ''fact_campaigns'' \<noteq> None
      \<and> store example_store ''dim_sales_targets'' \<noteq> None
      \<and> store example_store ''dim_customers'' \<noteq> None"
    by (simp add: example_store_def)
  have row: "store example_store ''fact_campaigns''
      = Some \<lparr>schema = fact_campaigns_schema, rows = [example_row], seq = 1\<rparr>"
    by (simp add: example_store_def)
  from setup_database_idempotent [of example_store] present row show ?thesis
    by simp
qed

subsection \<open>The Warehouse Loader\<close>

lemma length_records: "length (records df) = len_frame df"
  by (simp add: records_def)

text \<open>The records of a well-formed frame hold, column by column, the cells of the frame.\<close>

lemma records_column:
  assumes "wf_frame df" "map_of df c = Some s"
  shows "map (\<lambda>r. cell r c) (records df) = cells s"
proof -
  from assms have len: "length (cells s) = len_frame df"
    by (cases s) (auto simp: wf_frame_def list_all_iff dest!: map_of_SomeD)
  have "map_of (map (\<lambda>(c, s). (c, cells s ! i)) df) c = Some (cells s ! i)" for i
    using assms(2) by (induction df) (auto split: if_splits)
  then have "map (\<lambda>r. cell r c) (records df) = map (\<lambda>i. cells s ! i) [0..<len_frame df]"
    by (simp add: records_def cell_def)
  also have "\<dots> = cells s"
    unfolding len [symmetric] by (rule map_nth)
  finally show ?thesis .
qed

lemma records_keys: "r \<in> set (records df) \<Longrightarrow> map fst r = map fst df"
  by (auto simp: records_def split_def)

lemma records_absent:
  "r \<in> set (records df) \<Longrightarrow> c \<notin> set (map fst df) \<Longrightarrow> map_of r c = None"
  using records_keys [of r df] by (metis map_of_eq_None_iff set_map)


lemma insert_rows_rows:
  "insert_rows t rs now = Inr t' \<Longrightarrow>
     \<exists>new. rows t' = rows t @ new \<and> length new = length rs \<and> schema t' = schema t"
proof (induction rs arbitrary: t)
  case Nil
  then show ?case by simp
next
  case (Cons r rs)
  from Cons.prems obtain t1 where t1: "insert_row t r now = Inr t1"
      and rest: "insert_rows t1 rs now = Inr t'"
    by (auto split: sum.splits)
  from t1 obtain r' where r': "rows t1 = rows t @ [r']" "schema t1 = schema t"
    by (auto simp: insert_row_def split: sum.splits)
  from Cons.IH [OF rest] obtain new where
    "rows t' = rows t1 @ new" "length new = length rs" "schema t' = schema t1"
    by blast
  with r' show ?case by simp
qed

lemma insert_frame_rows:
  "insert_frame t df now = Inr t' \<Longrightarrow>
     \<exists>new. rows t' = rows t @ new \<and> length new = len_frame df \<and> schema t' = schema t"
  using insert_rows_rows [of t "records df" now t']
  by (auto simp: insert_frame_def length_records split: if_splits)

lemma load_appends:
  assumes "load_to_database st df name now = (st', Inr u)"
  shows "(\<exists>new. table_rows st' name = table_rows st name @ new \<and> length new = len_frame df)
     \<and> (\<forall>n. n \<noteq> name \<longrightarrow> store st' n = store st n)"
proof -
  from assms obtain db where o: "conn_open st" and db: "to_sql (store st) df name now = Inr db"
      and st': "st' = st\<lparr>store := db\<rparr>"
    by (auto simp: load_to_database_def split: if_splits sum.splits)
  show ?thesis
  proof (cases "store st name")
    case None
    with db obtain t' where t': "insert_frame \<lparr>schema = frame_schema df, rows = [], seq = 0\<rparr> df now = Inr t'"
       and d: "db = (store st)(name \<mapsto> t')"
      by (auto simp: to_sql_def split: sum.splits)
    from insert_frame_rows [OF t'] d st' None show ?thesis
      by (auto simp: table_rows_def)
  next
    case (Some t)
    with db obtain t' where t': "insert_frame t df now = Inr t'"
       and d: "db = (store st)(name \<mapsto> t')"
      by (auto simp: to_sql_def split: sum.splits)
    from insert_frame_rows [OF t'] d st' Some show ?thesis
      by (auto simp: table_rows_def)
  qed
qed

lemma load_failure_state: "load_to_database st df name now = (st', Inl e) \<Longrightarrow> st' = st"
  by (auto simp: load_to_database_def split: if_splits sum.splits)



lemma id_step_max: "id_step c r (max a b) = max a (id_step c r b)"
  by (simp add: id_step_def max.left_commute split: option.splits)

lemma id_step_ge: "b \<le> id_step c r b"
  by (simp add: id_step_def split: option.splits)

lemma fold_id_step_max: "fold (id_step c) rs (max a b) = max a (fold (id_step c) rs b)"
  by (induction rs arbitrary: b) (simp_all add: id_step_max)

lemma fold_id_step_ge: "b \<le> fold (id_step c) rs b"
proof (induction rs arbitrary: b)
  case Nil
  show ?case by simp
next
  case (Cons r rs)
  have "b \<le> id_step c r b" by (rule id_step_ge)
  also have "\<dots> \<le> fold (id_step c) rs (id_step c r b)" by (rule Cons.IH)
  finally show ?case by simp
qed

lemma max_id_bound:
  "r \<in> set (rows t) \<Longrightarrow> cell r ''id'' = SInt i \<Longrightarrow> i \<le> max_id t ''id''"
proof -
  have "r \<in> set rs \<Longrightarrow> cell r ''id'' = SInt i \<Longrightarrow> i \<le> fold (id_step ''id'') rs b" for rs b
  proof (induction rs arbitrary: b)
    case Nil
    then show ?case by simp
  next
    case (Cons a rs)
    show ?case
    proof (cases "a = r")
      case True
      with Cons.prems have "id_step ''id'' a b = max i b" by (simp add: id_step_def)
      then have "i \<le> id_step ''id'' a b" by simp
      also have "\<dots> \<le> fold (id_step ''id'') rs (id_step ''id'' a b)" by (rule fold_id_step_ge)
      finally show ?thesis by simp
    next
      case False
      with Cons show ?thesis by simp
    qed
  qed
  then show "r \<in> set (rows t) \<Longrightarrow> cell r ''id'' = SInt i \<Longrightarrow> i \<le> max_id t ''id''"
    by (simp add: max_id_def)
qed

lemma store_cells_cell:
  "store_cells t cds r now = Inr r' \<Longrightarrow> distinct (map col_name cds) \<Longrightarrow> cd \<in> set cds
     \<Longrightarrow> store_cell t cd (supplied cd r now) = Inr (cell r' (col_name cd))"
proof (induction cds arbitrary: r')
  case Nil
  then show ?case by simp
next
  case (Cons a cds)
  from Cons.prems(1) obtain v vs where v: "store_cell t a (supplied a r now) = Inr v"
      and vs: "store_cells t cds r now = Inr vs" and r': "r' = (col_name a, v) # vs"
    by (auto split: sum.splits)
  show ?case
  proof (cases "cd = a")
    case True
    with v r' show ?thesis by (simp add: cell_def)
  next
    case False
    with Cons.prems(3) have in_cds: "cd \<in> set cds"
      by simp
    then have "col_name cd \<in> col_name ` set cds"
      by (rule imageI)
    moreover from Cons.prems(2) have "col_name a \<notin> col_name ` set cds"
      by simp
    ultimately have ne: "col_name cd \<noteq> col_name a"
      by metis
    from Cons.IH [OF vs _ in_cds] Cons.prems(2)
    have "store_cell t cd (supplied cd r now) = Inr (cell vs (col_name cd))" by simp
    with ne r' show ?thesis by (simp add: cell_def)
  qed
qed

lemma warehouse_schema_facts:
  assumes "warehouse_schema cs"
  shows "distinct (map col_name cs)" "id_col \<in> set cs" "created_at_col \<in> set cs"
  using assms by (auto simp: warehouse_schema_def schema_defs)

lemma warehouse_new_seq:
  assumes "warehouse_schema (schema t)"
  shows "new_seq t r = id_step ''id'' r (seq t)"
  using assms by (auto simp: warehouse_schema_def new_seq_def id_step_def schema_defs)

lemma insert_row_auto:
  assumes ins: "insert_row t r now = Inr t1" and w: "warehouse_schema (schema t)"
    and noid: "map_of r ''id'' = None" and nocr: "map_of r ''created_at'' = None"
  shows "\<exists>r'. rows t1 = rows t @ [r'] \<and> cell r' ''id'' = SInt (max_id t ''id'' + 1)
            \<and> cell r' ''created_at'' = SText now"
    and "max_id t1 ''id'' = max_id t ''id'' + 1" and "schema t1 = schema t"
proof -
  from ins obtain r' where sc: "store_cells t (schema t) r now = Inr r'"
      and t1: "t1 = t\<lparr>rows := rows t @ [r'], seq := new_seq t r'\<rparr>"
    by (auto simp: insert_row_def split: sum.splits)
  note f = warehouse_schema_facts [OF w]
  from store_cells_cell [OF sc f(1) f(2)] noid
  have i: "cell r' ''id'' = SInt (max_id t ''id'' + 1)"
    by (simp add: id_col_def store_cell_def supplied_def)
  from store_cells_cell [OF sc f(1) f(3)] nocr
  have c: "cell r' ''created_at'' = SText now"
    by (simp add: created_at_col_def store_cell_def supplied_def)
  from t1 i c show "\<exists>r'. rows t1 = rows t @ [r'] \<and> cell r' ''id'' = SInt (max_id t ''id'' + 1)
            \<and> cell r' ''created_at'' = SText now"
    by simp
  from t1 show "schema t1 = schema t" by simp
  have "max_id t1 ''id'' = id_step ''id'' r' (fold (id_step ''id'') (rows t) (id_step ''id'' r' (seq t)))"
    using t1 by (simp add: max_id_def warehouse_new_seq [OF w])
  also have "\<dots> = max_id t ''id'' + 1"
    using i by (simp add: id_step_def fold_id_step_max max_id_def)
  finally show "max_id t1 ''id'' = max_id t ''id'' + 1" .
qed

lemma insert_rows_auto:
  assumes "insert_rows t rs now = Inr t'" "warehouse_schema (schema t)"
    "\<forall>r\<in>set rs. map_of r ''id'' = None \<and> map_of r ''created_at'' = None"
  shows "\<exists>new. rows t' = rows t @ new
     \<and> map (\<lambda>r. cell r ''id'') new
         = map (\<lambda>k. SInt (max_id t ''id'' + 1 + int k)) [0..<length rs]
     \<and> (\<forall>r\<in>set new. cell r ''created_at'' = SText now)"
  using assms
proof (induction rs arbitrary: t)
  case Nil
  then show ?case by simp
next
  case (Cons r rs)
  from Cons.prems(1) obtain t1 where t1: "insert_row t r now = Inr t1"
      and rest: "insert_rows t1 rs now = Inr t'"
    by (auto split: sum.splits)
  from Cons.prems(3) have r: "map_of r ''id'' = None" "map_of r ''created_at'' = None"
    by simp_all
  from insert_row_auto [OF t1 Cons.prems(2) r] obtain r' where
    r': "rows t1 = rows t @ [r']" "cell r' ''id'' = SInt (max_id t ''id'' + 1)"
      "cell r' ''created_at'' = SText now"
    and m: "max_id t1 ''id'' = max_id t ''id'' + 1" and s: "schema t1 = schema t"
    by blast
  from Cons.IH [OF rest] Cons.prems(2,3) s obtain new where
    new: "rows t' = rows t1 @ new"
      "map (\<lambda>r. cell r ''id'') new
         = map (\<lambda>k. SInt (max_id t1 ''id'' + 1 + int k)) [0..<length rs]"
      "\<forall>r\<in>set new. cell r ''created_at'' = SText now"
    by auto
  have "rows t' = rows t @ (r' # new)"
    using new(1) r'(1) by simp
  moreover have "map (\<lambda>r. cell r ''id'') (r' # new)
       = map (\<lambda>k. SInt (max_id t ''id'' + 1 + int k)) [0..<length (r # rs)]"
    using new(2) r'(2) m by (simp add: map_upt_Suc add.commute add.left_commute del: upt_Suc)
  moreover have "\<forall>x\<in>set (r' # new). cell x ''created_at'' = SText now"
    using new(3) r'(3) by simp
  ultimately show ?case by blast
qed

lemma insert_frame_auto:
  assumes "insert_frame t df now = Inr t'" "warehouse_schema (schema t)"
    "''id'' \<notin> set (map fst df)" "''created_at'' \<notin> set (map fst df)"
  shows "\<exists>new. rows t' = rows t @ new
     \<and> map (\<lambda>r. cell r ''id'') new
         = map (\<lambda>k. SInt (max_id t ''id'' + 1 + int k)) [0..<len_frame df]
     \<and> (\<forall>r\<in>set new. cell r ''created_at'' = SText now)"
proof (cases "len_frame df = 0")
  case True
  with assms(1) show ?thesis by (simp add: insert_frame_def)
next
  case False
  with assms(1) have i: "insert_rows t (records df) now = Inr t'"
    by (auto simp: insert_frame_def split: if_splits)
  have "\<forall>r\<in>set (records df). map_of r ''id'' = None \<and> map_of r ''created_at'' = None"
    using assms(3,4) by (auto intro: records_absent)
  from insert_rows_auto [OF i assms(2) this] show ?thesis
    by (simp add: length_records)
qed

lemma load_keeps_rows:
  assumes "load_to_database st df name now = (st', res)"
  shows "\<exists>new. table_rows st' n = table_rows st n @ new"
proof (cases res)
  case (Inl e)
  with assms have "st' = st" by (simp add: load_failure_state)
  then show ?thesis by simp
next
  case (Inr u)
  with assms load_appends [of st df name now st' u] show ?thesis
    by (cases "n = name") (auto simp: table_rows_def)
qed

lemma load_auto:
  assumes l: "load_to_database st df name now = (st', Inr u)"
    and t: "store st name = Some t" and w: "warehouse_schema (schema t)"
    and c: "''id'' \<notin> set (map fst df)" "''created_at'' \<notin> set (map fst df)"
  shows "\<exists>new. table_rows st' name = table_rows st name @ new
     \<and> map (\<lambda>r. cell r ''id'') new
         = map (\<lambda>k. SInt (max_id t ''id'' + 1 + int k)) [0..<len_frame df]
     \<and> (\<forall>r\<in>set new. cell r ''created_at'' = SText now)"
proof -
  from l t obtain t' where t': "insert_frame t df now = Inr t'"
      and st': "st' = st\<lparr>store := (store st)(name \<mapsto> t')\<rparr>"
    by (auto simp: load_to_database_def to_sql_def split: if_splits sum.splits)
  from insert_frame_auto [OF t' w c] st' t show ?thesis
    by (auto simp: table_rows_def)
qed

text \<open>
  Claim C5: a load that succeeds appends one row per record of the frame to the named
  table and changes no other table. In a table of the warehouse, for a frame that brings
  no \<^verbatim>\<open>id\<close> and no \<^verbatim>\<open>created_at\<close> of its own, the new rows get the next identifiers
  after the largest one in use, which no row of the table has, and the time of the load.
  Loading a frame twice into a table without rows leaves twice its records. Whatever the
  outcome of a load, every table keeps the rows it had, in their order, as a prefix of
  its rows.
\<close>

theorem load_to_database_appends:
  "(load_to_database st df name now = (st', Inr u) \<longrightarrow>
      (\<exists>new. table_rows st' name = table_rows st name @ new \<and> length new = len_frame df)
      \<and> (\<forall>n. n \<noteq> name \<longrightarrow> store st' n = store st n)
      \<and> (\<forall>t. store st name = Some t \<and> warehouse_schema (schema t)
               \<and> ''id'' \<notin> set (map fst df) \<and> ''created_at'' \<notin> set (map fst df) \<longrightarrow>
            (\<exists>new. table_rows st' name = table_rows st name @ new
               \<and> map (\<lambda>r. cell r ''id'') new
                   = map (\<lambda>k. SInt (max_id t ''id'' + 1 + int k)) [0..<len_frame df]
               \<and> (\<forall>r\<in>set new. cell r ''created_at'' = SText now))
            \<and> (\<forall>r\<in>set (rows t). \<forall>i. cell r ''id'' = SInt i \<longrightarrow> i \<le> max_id t ''id''))
      \<and> (\<forall>st'' now'. table_rows st name = []
               \<and> load_to_database st' df name now' = (st'', Inr u) \<longrightarrow>
            length (table_rows st'' name) = 2 * len_frame df))
   \<and> (load_to_database st df name now = (st', res) \<longrightarrow>
      (\<forall>n. \<exists>new. table_rows st' n = table_rows st n @ new))"
proof (intro conjI impI allI)
  assume l: "load_to_database st df name now = (st', Inr u)"
  from load_appends [OF l]
  show "\<exists>new. table_rows st' name = table_rows st name @ new \<and> length new = len_frame df"
    by blast
  fix st'' now'
  assume "table_rows st name = [] \<and> load_to_database st' df name now' = (st'', Inr u)"
  with load_appends [OF l] load_appends [of st' df name now' st'' u]
  show "length (table_rows st'' name) = 2 * len_frame df"
    by auto
next
  fix n
  assume "load_to_database st df name now = (st', Inr u)" "n \<noteq> name"
  with load_appends [of st df name now st' u] show "store st' n = store st n"
    by blast
next
  fix t
  assume l: "load_to_database st df name now = (st', Inr u)"
    and h: "store st name = Some t \<and> warehouse_schema (schema t)
               \<and> ''id'' \<notin> set (map fst df) \<and> ''created_at'' \<notin> set (map fst df)"
  from load_auto [OF l] h
  show "\<exists>new. table_rows st' name = table_rows st name @ new
               \<and> map (\<lambda>r. cell r ''id'') new
                   = map (\<lambda>k. SInt (max_id t ''id'' + 1 + int k)) [0..<len_frame df]
               \<and> (\<forall>r\<in>set new. cell r ''created_at'' = SText now)"
    by blast
  show "\<forall>r\<in>set (rows t). \<forall>i. cell r ''id'' = SInt i \<longrightarrow> i \<le> max_id t ''id''"
    by (auto intro: max_id_bound)
next
  fix n
  assume "load_to_database st df name now = (st', res)"
  then show "\<exists>new. table_rows st' n = table_rows st n @ new"
    by (rule load_keeps_rows)
qed

lemma example_load:
  "snd (load_to_database example_store example_loaded ''fact_campaigns'' ''2024-11-05 09:00:00'')
     = Inr ()"
  by (simp add: load_to_database_def to_sql_def insert_frame_def records_def insert_row_def
      supplied_def store_cell_def max_id_def id_step_def new_seq_def cell_def example_store_def
      example_loaded_def example_campaigns_def example_row_def schema_defs)

lemmas load_eval =
  load_to_database_def to_sql_def insert_frame_def records_def insert_row_def
  supplied_def store_cell_def max_id_def id_step_def new_seq_def cell_def schema_defs

theorem load_to_database_appends_witness:
  "(\<exists>new. table_rows (fst (load_to_database example_store example_loaded ''fact_campaigns''
                                ''2024-11-05 09:00:00'')) ''fact_campaigns''
            = example_row # new
      \<and> map (\<lambda>r. cell r ''id'') new = [SInt 2]
      \<and> map (\<lambda>r. cell r ''created_at'') new = [SText ''2024-11-05 09:00:00''])
   \<and> length (table_rows
        (fst (load_to_database
           (fst (load_to_database (setup_database new_store) example_loaded ''fact_campaigns''
                   ''2024-11-05 09:00:00''))
           example_loaded ''fact_campaigns'' ''2024-11-05 09:00:01'')) ''fact_campaigns'') = 2"
proof -
  let ?l = "load_to_database example_store example_loaded ''fact_campaigns''
              ''2024-11-05 09:00:00''"
  let ?t = "\<lparr>schema = fact_campaigns_schema, rows = [example_row], seq = 1\<rparr>"
  have l: "?l = (fst ?l, Inr ())"
    using example_load by (metis prod.collapse)
  have t: "store example_store ''fact_campaigns'' = Some ?t"
    by (simp add: example_store_def)
  have w: "warehouse_schema (schema ?t)"
    by (simp add: warehouse_schema_def)
  have c: "''id'' \<notin> set (map fst example_loaded) \<and> ''created_at'' \<notin> set (map fst example_loaded)"
    by (simp add: example_loaded_def example_campaigns_def)
  have n: "len_frame example_loaded = 1"
    by (simp add: example_loaded_def example_campaigns_def)
  have m: "max_id ?t ''id'' = 1"
    by (simp add: max_id_def id_step_def example_row_def cell_def)
  have r: "table_rows example_store ''fact_campaigns'' = [example_row]"
    by (simp add: table_rows_def example_store_def)
  from load_to_database_appends
         [of example_store example_loaded "''fact_campaigns''" "''2024-11-05 09:00:00''"
             "fst ?l" "()" "Inr ()"] l t w c
  have "\<exists>new. table_rows (fst ?l) ''fact_campaigns''
                 = table_rows example_store ''fact_campaigns'' @ new
            \<and> map (\<lambda>r. cell r ''id'') new
                = map (\<lambda>k. SInt (max_id ?t ''id'' + 1 + int k)) [0..<len_frame example_loaded]
            \<and> (\<forall>r\<in>set new. cell r ''created_at'' = SText ''2024-11-05 09:00:00'')"
    by blast
  then obtain new where new: "table_rows (fst ?l) ''fact_campaigns'' = example_row # new"
      "map (\<lambda>r. cell r ''id'') new = [SInt 2]"
      "\<forall>r\<in>set new. cell r ''created_at'' = SText ''2024-11-05 09:00:00''"
    unfolding n m r by auto
  from new(2) obtain x where "new = [x]"
    by (cases new) auto
  with new have 1: "\<exists>new. table_rows (fst ?l) ''fact_campaigns'' = example_row # new
      \<and> map (\<lambda>r. cell r ''id'') new = [SInt 2]
      \<and> map (\<lambda>r. cell r ''created_at'') new = [SText ''2024-11-05 09:00:00'']"
    by auto
  let ?a = "load_to_database (setup_database new_store) example_loaded ''fact_campaigns''
              ''2024-11-05 09:00:00''"
  let ?b = "load_to_database (fst ?a) example_loaded ''fact_campaigns'' ''2024-11-05 09:00:01''"
  have a: "?a = (fst ?a, Inr ())"
  proof -
    have "snd ?a = Inr ()"
      by (simp add: load_eval setup_database_def create_table_if_not_exists_def new_store_def
          example_loaded_def example_campaigns_def)
    then show ?thesis by (metis prod.collapse)
  qed
  have b: "?b = (fst ?b, Inr ())"
  proof -
    have "snd ?b = Inr ()"
      by (simp add: load_eval setup_database_def create_table_if_not_exists_def new_store_def
          example_loaded_def example_campaigns_def)
    then show ?thesis by (metis prod.collapse)
  qed
  have e: "table_rows (setup_database new_store) ''fact_campaigns'' = []"
    by (simp add: table_rows_def setup_database_def create_table_if_not_exists_def new_store_def)
  from load_to_database_appends
         [of "setup_database new_store" example_loaded "''fact_campaigns''"
             "''2024-11-05 09:00:00''" "fst ?a" "()" "Inr ()"] a b e n
  have 2: "length (table_rows (fst ?b) ''fact_campaigns'') = 2"
    by (metis mult.right_neutral)
  from 1 2 show ?thesis by blast
qed





subsection \<open>The Report Engine: groups, totals and averages\<close>













































subsection \<open>The Report Engine: unknown reports, and no mutation\<close>

text \<open>
  Claim C9: a query name other than the two the engine knows raises (ValueError, the
  engine's query error) and leaves the warehouse as it was; and whatever the name, the
  call returns the warehouse unchanged.
\<close>

theorem execute_dashboard_query_unknown:
  "(query_type \<noteq> ''campaign_summary'' \<and> query_type \<noteq> ''daily_performance''
      \<longrightarrow> execute_dashboard_query st query_type
            = (st, Inl (ValueError (''Unknown query type: '' @ query_type))))
   \<and> fst (execute_dashboard_query st query_type) = st"
  by (simp add: execute_dashboard_query_def)

theorem execute_dashboard_query_unknown_witness:
  "execute_dashboard_query example_store ''nonexistent_report''
     = (example_store, Inl (ValueError ''Unknown query type: nonexistent_report''))
   \<and> fst (execute_dashboard_query example_store ''campaign_summary'') = example_store"
  using execute_dashboard_query_unknown [of "''nonexistent_report''" example_store]
    execute_dashboard_query_unknown [of "''campaign_summary''" example_store]
  by simp

subsection \<open>The connection at the end of a run\<close>

lemma load_to_database_conn:
  "load_to_database st df n now = (st', r) \<Longrightarrow> conn_open st' = conn_open st"
  by (auto simp: load_to_database_def split: sum.splits if_splits)

lemma execute_dashboard_query_state:
  "execute_dashboard_query st q = (st', r) \<Longrightarrow> st' = st"
  by (auto simp: execute_dashboard_query_def split: if_splits)

lemma setup_database_conn: "conn_open (setup_database st)"
  by (simp add: setup_database_def)

text \<open>A run that completes has closed the connection.\<close>

lemma main_success_closes_connection:
  "main inp st0 = (st', Inr r) \<Longrightarrow> \<not> conn_open st'"
  unfolding main_def Let_def
  by (auto split: option.splits sum.splits prod.splits
      dest!: load_to_database_conn execute_dashboard_query_state simp: close_connection_def)

lemma example_run_fails: "snd (main example_run new_store) = Inl OperationalError"
  by (simp add: main_def example_run_def new_store_def example_campaigns_def
      example_targets_def example_customers_def transform_campaigns_def transform_targets_def
      transform_customers_def getitem_def truediv_def load_to_database_def to_sql_def
      insert_frame_def records_def insert_row_def supplied_def store_cell_def max_id_def
      id_step_def new_seq_def cell_def setup_database_def create_table_if_not_exists_def schema_defs
      rint_def Let_def)

text \<open>
  Claim C8 says that the connection is closed at the end of every run, also when a stage
  fails. \<^verbatim>\<open>main\<close> calls \<^verbatim>\<open>close_connection\<close> as the last statement of its \<^verbatim>\<open>try\<close> block and
  has no \<^verbatim>\<open>finally\<close>: whenever a run fails, the connection is still open. The run of the
  example inputs on a new store is such a run: the load of the targets raises, since the
  frame has the column \<^verbatim>\<open>target_roi\<close> and the table has not.
\<close>

theorem main_failure_leaves_connection_open:
  "main inp st0 = (st', Inl e) \<Longrightarrow> conn_open st'"
  unfolding main_def Let_def
  by (auto split: option.splits sum.splits prod.splits
      dest!: load_to_database_conn execute_dashboard_query_state simp: setup_database_conn)

theorem main_failure_leaves_connection_open_witness:
  "snd (main example_run new_store) = Inl OperationalError
   \<and> conn_open (fst (main example_run new_store))"
  using main_failure_leaves_connection_open
    [of example_run new_store "fst (main example_run new_store)" OperationalError]
    example_run_fails
  by (metis prod.collapse)

end
